theory Spec2Isabelle
  imports Complex_Main "HOL-Library.Sublist"
begin

section \<open>The student dashboard: data model\<close>

text \<open>
  The program is one script, \<^verbatim>\<open>student_dashboard.py\<close>, over a pandas DataFrame. A cell of
  the frame is a missing value (NaN), a string or a number. A number is a finite float64,
  held as the rational it denotes; the arithmetic of section 4 rounds as float64 does. The
  infinities, which pandas also reads and which an overflow produces, are not modelled. A
  row gives a cell for every column name; only the cells of the columns listed
  in \<open>columns\<close> belong to the frame, and no definition below reads any other cell without
  checking the column first.
\<close>

datatype cell = NaN | Str string | Num rat

type_synonym row = "string \<Rightarrow> cell"

record dataframe =
  columns :: "string list"
  rows :: "row list"

datatype error = SourceNotFound | KeyError string | TypeError | AttributeError | RegexError

fun is_Str :: "cell \<Rightarrow> bool" where
  "is_Str (Str s) = True"
| "is_Str c = False"

fun is_Num :: "cell \<Rightarrow> bool" where
  "is_Num (Num v) = True"
| "is_Num c = False"

subsection \<open>Column access and boolean masks\<close>

text \<open>\<^verbatim>\<open>df[c]\<close>: the column as a series, KeyError when the frame has no such column.\<close>

definition getcol :: "dataframe \<Rightarrow> string \<Rightarrow> error + cell list" where
  "getcol d c = (if c \<in> set (columns d) then Inr (map (\<lambda>r. r c) (rows d)) else Inl (KeyError c))"

text \<open>\<^verbatim>\<open>df[mask]\<close>: the rows whose mask entry is True, in the frame's order.\<close>

definition select_rows :: "dataframe \<Rightarrow> bool list \<Rightarrow> dataframe" where
  "select_rows d bs = d\<lparr>rows := map fst (filter snd (zip (rows d) bs))\<rparr>"

text \<open>\<^verbatim>\<open>series == value\<close>, elementwise: a missing value equals nothing.\<close>

definition cell_eq :: "cell \<Rightarrow> cell \<Rightarrow> bool" where
  "cell_eq a b = (a = b \<and> a \<noteq> NaN)"

text \<open>
  \<^verbatim>\<open>series >= m\<close> and \<^verbatim>\<open>series > m\<close>, elementwise: a missing value compares False, a
  string against a number raises TypeError.
\<close>

fun cell_ge :: "rat \<Rightarrow> cell \<Rightarrow> bool" where
  "cell_ge m (Num v) = (m \<le> v)"
| "cell_ge m c = False"

fun cell_gt :: "rat \<Rightarrow> cell \<Rightarrow> bool" where
  "cell_gt m (Num v) = (m < v)"
| "cell_gt m c = False"

definition series_ge :: "cell list \<Rightarrow> rat \<Rightarrow> error + bool list" where
  "series_ge col m = (if \<exists>c\<in>set col. is_Str c then Inl TypeError else Inr (map (cell_ge m) col))"

definition series_gt :: "cell list \<Rightarrow> rat \<Rightarrow> error + bool list" where
  "series_gt col m = (if \<exists>c\<in>set col. is_Str c then Inl TypeError else Inr (map (cell_gt m) col))"

subsection \<open>Float64 arithmetic\<close>

text \<open>
  A float64 has a significand of 53 bits, and every operation returns the float64 nearest
  to the exact result, a tie going to the even significand. \<open>expo n x\<close> is the binary
  exponent of a positive \<open>x\<close>, found by halving or doubling at most \<open>n\<close> times; 2100
  steps cover every magnitude a float64 has. Overflow and the subnormal numbers are left
  out: \<open>round64\<close> is the rounding of float64 for magnitudes from \<open>2 powi (- 1022)\<close> up to
  \<open>2 powi 1024\<close>.
\<close>

fun expo :: "nat \<Rightarrow> rat \<Rightarrow> int" where
  "expo 0 x = 0"
| "expo (Suc n) x =
     (if 2 \<le> x then expo n (x / 2) + 1
      else if x < 1 then expo n (x * 2) - 1
      else 0)"

definition round_half_even :: "rat \<Rightarrow> int" where
  "round_half_even q =
     (let f = \<lfloor>q\<rfloor>; d = q - of_int f
      in if d < 1 / 2 then f else if 1 / 2 < d then f + 1 else if even f then f else f + 1)"

definition round64 :: "rat \<Rightarrow> rat" where
  "round64 x =
     (if x = 0 then 0
      else let u = 2 powi (expo 2100 \<bar>x\<bar> - 52)
           in sgn x * of_int (round_half_even (\<bar>x\<bar> / u)) * u)"

text \<open>
  A float64 sum rounds after every addition, and its result depends on the order of the
  additions, which is the library's choice: the functions below that sum a series take the
  summation as the parameter \<open>fsum\<close>. Two orders are given here. \<open>sum_in_order\<close> adds the
  values one after the other to an accumulator that starts at 0. \<open>sum_first_rest\<close> sums
  the values after the first in that way and adds the result to the first value, as a
  reduction that starts from the first element does.
\<close>

fun seq_sum :: "rat \<Rightarrow> rat list \<Rightarrow> rat" where
  "seq_sum acc [] = acc"
| "seq_sum acc (v # vs) = seq_sum (round64 (acc + v)) vs"

definition sum_in_order :: "rat list \<Rightarrow> rat" where
  "sum_in_order vs = seq_sum 0 vs"

definition sum_first_rest :: "rat list \<Rightarrow> rat" where
  "sum_first_rest vs = (case vs of [] \<Rightarrow> 0 | v # ws \<Rightarrow> round64 (v + seq_sum 0 ws))"

text \<open>
  \<^verbatim>\<open>series.mean()\<close>: missing values are skipped, the mean of no values is NaN, a string
  in the series raises TypeError. The mean is the float64 sum of the values divided by
  their count, the quotient rounded once more.
\<close>

fun nums :: "cell list \<Rightarrow> rat list" where
  "nums [] = []"
| "nums (Num v # cs) = v # nums cs"
| "nums (c # cs) = nums cs"

definition series_mean :: "(rat list \<Rightarrow> rat) \<Rightarrow> cell list \<Rightarrow> error + cell" where
  "series_mean fsum col =
     (if \<exists>c\<in>set col. is_Str c then Inl TypeError
      else if nums col = [] then Inr NaN
      else Inr (Num (round64 (fsum (nums col) / of_nat (length (nums col))))))"

section \<open>1. Load the dataset (lines 12-33)\<close>

text \<open>
  \<^verbatim>\<open>df.fillna({...})\<close>: in each column of the frame that the dictionary names, a missing
  value becomes the dictionary's value; keys that are not columns are ignored.
\<close>

definition fillna :: "(string \<rightharpoonup> cell) \<Rightarrow> dataframe \<Rightarrow> dataframe" where
  "fillna value d =
     d\<lparr>rows := map (\<lambda>r c. if c \<in> set (columns d) \<and> r c = NaN
                           then (case value c of Some v \<Rightarrow> v | None \<Rightarrow> NaN)
                           else r c) (rows d)\<rparr>"

definition defaults :: "string \<rightharpoonup> cell" where
  "defaults =
     [''Course'' \<mapsto> Str ''Unknown'', ''City'' \<mapsto> Str ''Unknown'', ''Gender'' \<mapsto> Str ''Unknown'',
      ''Name'' \<mapsto> Str ''Unknown'', ''Marks'' \<mapsto> Num 0, ''Attendance'' \<mapsto> Num 0]"

text \<open>
  \<^verbatim>\<open>pd.to_numeric(series, errors="coerce")\<close> on one cell. The number syntax pandas accepts
  is the parameter \<open>parse\<close>; a string it rejects becomes NaN.
\<close>

fun to_numeric :: "(string \<Rightarrow> rat option) \<Rightarrow> cell \<Rightarrow> cell" where
  "to_numeric parse NaN = NaN"
| "to_numeric parse (Num v) = Num v"
| "to_numeric parse (Str s) = (case parse s of Some v \<Rightarrow> Num v | None \<Rightarrow> NaN)"

text \<open>\<^verbatim>\<open>series.fillna(0)\<close> on one cell.\<close>

fun fillna0 :: "cell \<Rightarrow> cell" where
  "fillna0 NaN = Num 0"
| "fillna0 c = c"

text \<open>
  \<^verbatim>\<open>if c in df.columns: df[c] = pd.to_numeric(df[c], errors="coerce").fillna(0)\<close>
\<close>

definition coerce_column :: "(string \<Rightarrow> rat option) \<Rightarrow> string \<Rightarrow> dataframe \<Rightarrow> dataframe" where
  "coerce_column parse c d =
     (if c \<in> set (columns d)
      then d\<lparr>rows := map (\<lambda>r. r(c := fillna0 (to_numeric parse (r c)))) (rows d)\<rparr>
      else d)"

text \<open>
  The whole of section 1. The argument is what \<^verbatim>\<open>pd.read_csv\<close> gives: \<open>None\<close> when the
  file is not there (the script reports the error and stops), the raw frame otherwise.
\<close>

definition load_df :: "(string \<Rightarrow> rat option) \<Rightarrow> dataframe option \<Rightarrow> error + dataframe" where
  "load_df parse src =
     (case src of
        None \<Rightarrow> Inl SourceNotFound
      | Some raw \<Rightarrow>
          Inr (coerce_column parse ''Attendance''
                (coerce_column parse ''Marks'' (fillna defaults raw))))"

section \<open>2. Apply filters (lines 68-79)\<close>

text \<open>What the sidebar widgets hand to the filter.\<close>

record criteria =
  selected_course :: cell
  selected_cities :: "cell list"
  marks_filter :: rat
  gender_option :: string

text \<open>\<^verbatim>\<open>d[d[c] == v]\<close>\<close>

definition filter_eq :: "dataframe \<Rightarrow> string \<Rightarrow> cell \<Rightarrow> error + dataframe" where
  "filter_eq d c v =
     (case getcol d c of
        Inl e \<Rightarrow> Inl e
      | Inr col \<Rightarrow> Inr (select_rows d (map (\<lambda>x. cell_eq x v) col)))"

text \<open>\<^verbatim>\<open>d[d[c].isin(vs)]\<close>\<close>

definition filter_isin :: "dataframe \<Rightarrow> string \<Rightarrow> cell list \<Rightarrow> error + dataframe" where
  "filter_isin d c vs =
     (case getcol d c of
        Inl e \<Rightarrow> Inl e
      | Inr col \<Rightarrow> Inr (select_rows d (map (\<lambda>x. x \<in> set vs) col)))"

text \<open>\<^verbatim>\<open>d[d[c] >= m]\<close>\<close>

definition filter_ge :: "dataframe \<Rightarrow> string \<Rightarrow> rat \<Rightarrow> error + dataframe" where
  "filter_ge d c m =
     (case getcol d c of
        Inl e \<Rightarrow> Inl e
      | Inr col \<Rightarrow>
          (case series_ge col m of
             Inl e \<Rightarrow> Inl e
           | Inr bs \<Rightarrow> Inr (select_rows d bs)))"

text \<open>\<^verbatim>\<open>d[d[c] > m]\<close>\<close>

definition filter_gt :: "dataframe \<Rightarrow> string \<Rightarrow> rat \<Rightarrow> error + dataframe" where
  "filter_gt d c m =
     (case getcol d c of
        Inl e \<Rightarrow> Inl e
      | Inr col \<Rightarrow>
          (case series_gt col m of
             Inl e \<Rightarrow> Inl e
           | Inr bs \<Rightarrow> Inr (select_rows d bs)))"

text \<open>The four stages, in the script's order (lines 70-71, 73-74, 76, 78-79).\<close>

definition course_stage :: "criteria \<Rightarrow> dataframe \<Rightarrow> error + dataframe" where
  "course_stage C d =
     (if selected_course C \<noteq> Str ''All'' then filter_eq d ''Course'' (selected_course C)
      else Inr d)"

definition city_stage :: "criteria \<Rightarrow> dataframe \<Rightarrow> error + dataframe" where
  "city_stage C d =
     (if selected_cities C \<noteq> [] then filter_isin d ''City'' (selected_cities C)
      else Inr d)"

definition marks_stage :: "criteria \<Rightarrow> dataframe \<Rightarrow> error + dataframe" where
  "marks_stage C d = filter_ge d ''Marks'' (marks_filter C)"

definition gender_stage :: "criteria \<Rightarrow> dataframe \<Rightarrow> error + dataframe" where
  "gender_stage C d =
     (if gender_option C \<noteq> ''All'' then filter_eq d ''Gender'' (Str (gender_option C))
      else Inr d)"

definition filtered_df :: "dataframe \<Rightarrow> criteria \<Rightarrow> error + dataframe" where
  "filtered_df df C =
     (case course_stage C df of
        Inl e \<Rightarrow> Inl e
      | Inr d1 \<Rightarrow>
          (case city_stage C d1 of
             Inl e \<Rightarrow> Inl e
           | Inr d2 \<Rightarrow>
               (case marks_stage C d2 of
                  Inl e \<Rightarrow> Inl e
                | Inr d3 \<Rightarrow> gender_stage C d3)))"

text \<open>
  The conjunction of the active filter predicates, as the specification words it: course
  match unless the course is "All", city membership unless no city is selected, marks at
  least the minimum, gender match unless the gender is "All".
\<close>

definition passes :: "criteria \<Rightarrow> row \<Rightarrow> bool" where
  "passes C r =
     ((selected_course C = Str ''All'' \<or> cell_eq (r ''Course'') (selected_course C)) \<and>
      (selected_cities C = [] \<or> r ''City'' \<in> set (selected_cities C)) \<and>
      cell_ge (marks_filter C) (r ''Marks'') \<and>
      (gender_option C = ''All'' \<or> cell_eq (r ''Gender'') (Str (gender_option C))))"

text \<open>The identity criteria of the specification.\<close>

definition identity_criteria :: criteria where
  "identity_criteria =
     \<lparr>selected_course = Str ''All'', selected_cities = [], marks_filter = 0,
      gender_option = ''All''\<rparr>"

section \<open>4. Key metrics (lines 90-107)\<close>

datatype tier = Excellent | Good | NeedsImprovement | NoMatch

text \<open>
  The three metrics are assigned and shown in the non-empty branch only; in the other
  branch the script shows the no-match message and nothing else.
\<close>

record metrics =
  avg_marks :: cell
  avg_attendance :: cell
  total_students :: nat

record summary =
  shown :: "metrics option"
  tier :: tier

text \<open>\<^verbatim>\<open>df.empty\<close>: True when either axis of the frame has length 0.\<close>

definition df_empty :: "dataframe \<Rightarrow> bool" where
  "df_empty d = (rows d = [] \<or> columns d = [])"

text \<open>The performance message (lines 100-105); a NaN average compares False twice.\<close>

definition performance :: "cell \<Rightarrow> tier" where
  "performance avg =
     (if cell_gt 85 avg then Excellent
      else if cell_ge 70 avg then Good
      else NeedsImprovement)"

definition summarize :: "(rat list \<Rightarrow> rat) \<Rightarrow> dataframe \<Rightarrow> dataframe \<Rightarrow> error + summary" where
  "summarize fsum df fd =
     (if \<not> df_empty fd then
        (case getcol fd ''Marks'' of
           Inl e \<Rightarrow> Inl e
         | Inr mcol \<Rightarrow>
             (case series_mean fsum mcol of
                Inl e \<Rightarrow> Inl e
              | Inr am \<Rightarrow>
                  (case (if ''Attendance'' \<in> set (columns df)
                         then (case getcol fd ''Attendance'' of
                                 Inl e \<Rightarrow> Inl e
                               | Inr acol \<Rightarrow> series_mean fsum acol)
                         else Inr (Num 0)) of
                     Inl e \<Rightarrow> Inl e
                   | Inr aa \<Rightarrow>
                       Inr \<lparr>shown = Some \<lparr>avg_marks = am, avg_attendance = aa,
                                          total_students = length (rows fd)\<rparr>,
                            tier = performance am\<rparr>)))
      else Inr \<lparr>shown = None, tier = NoMatch\<rparr>)"

text \<open>
  The arithmetic mean of a non-empty list of numbers, as the specification words it: the
  exact sum divided by the count.
\<close>

definition arith_mean :: "rat list \<Rightarrow> rat" where
  "arith_mean vs = sum_list vs / of_nat (length vs)"

section \<open>5. Search by student name (lines 115-120)\<close>

text \<open>
  \<^verbatim>\<open>series.str.contains(pat, case=False, na=False)\<close>. The \<^verbatim>\<open>.str\<close> accessor exists on a
  series of object dtype only: a non-empty series without any string raises
  AttributeError. \<^verbatim>\<open>regex\<close> keeps its default True, so the pattern is compiled as a
  regular expression with IGNORECASE before any cell is looked at; \<open>re_compile\<close> is that
  compiler, \<open>None\<close> when the pattern is rejected. A cell that is not a string gives
  \<^verbatim>\<open>na\<close>, which is False.
\<close>

definition str_contains ::
  "(string \<Rightarrow> (string \<Rightarrow> bool) option) \<Rightarrow> cell list \<Rightarrow> string \<Rightarrow> error + bool list" where
  "str_contains re_compile col pat =
     (if col \<noteq> [] \<and> (\<forall>c\<in>set col. \<not> is_Str c) then Inl AttributeError
      else (case re_compile pat of
              None \<Rightarrow> Inl RegexError
            | Some m \<Rightarrow> Inr (map (\<lambda>c. case c of Str s \<Rightarrow> m s | _ \<Rightarrow> False) col)))"

text \<open>
  The search block: \<open>Inr None\<close> when no search is performed (empty query, or no Name
  column), so that \<^verbatim>\<open>result\<close> is never assigned.
\<close>

definition search_result ::
  "(string \<Rightarrow> (string \<Rightarrow> bool) option) \<Rightarrow> dataframe \<Rightarrow> string \<Rightarrow> error + dataframe option" where
  "search_result re_compile df name_search =
     (if name_search \<noteq> [] \<and> ''Name'' \<in> set (columns df) then
        (case getcol df ''Name'' of
           Inl e \<Rightarrow> Inl e
         | Inr col \<Rightarrow>
             (case str_contains re_compile col name_search of
                Inl e \<Rightarrow> Inl e
              | Inr bs \<Rightarrow> Inr (Some (select_rows df bs))))
      else Inr None)"

text \<open>ASCII case folding.\<close>

definition lower :: "char \<Rightarrow> char" where
  "lower c =
     (case map_of (zip ''ABCDEFGHIJKLMNOPQRSTUVWXYZ'' ''abcdefghijklmnopqrstuvwxyz'') c of
        Some l \<Rightarrow> l
      | None \<Rightarrow> c)"

text \<open>
  Case-insensitive substring containment, as the specification words the search:
  \<open>q\<close> occurs in \<open>s\<close> as a contiguous run of characters, case folded.
\<close>

definition contains_ci :: "string \<Rightarrow> string \<Rightarrow> bool" where
  "contains_ci q s = sublist (map lower q) (map lower s)"

text \<open>
  What this development assumes of Python's \<^verbatim>\<open>re.compile\<close> with IGNORECASE, at the
  two patterns it evaluates: the pattern \<^verbatim>\<open>.\<close> compiles and finds a match in exactly
  the strings that have a character other than a newline, and the pattern \<^verbatim>\<open>(\<close> does
  not compile (\<^verbatim>\<open>re.error\<close>, a parenthesis is missing). At every other pattern
  \<open>py_re\<close> is left unspecified.
\<close>

definition any_char :: "string \<Rightarrow> bool" where
  "any_char s = (\<exists>c\<in>set s. c \<noteq> CHR 0x0A)"

definition py_re :: "string \<Rightarrow> (string \<Rightarrow> bool) option" where
  "py_re pat =
     (if pat = ''.'' then Some any_char
      else if pat = ''('' then None
      else undefined)"

text \<open>
  The script runs from top to bottom, so the search block is reached only when the filter
  and the metrics before it have not raised.
\<close>

definition search_after_filters ::
  "(rat list \<Rightarrow> rat) \<Rightarrow> (string \<Rightarrow> (string \<Rightarrow> bool) option) \<Rightarrow> dataframe \<Rightarrow> criteria \<Rightarrow>
   string \<Rightarrow> error + dataframe option" where
  "search_after_filters fsum re_compile df C name_search =
     (case filtered_df df C of
        Inl e \<Rightarrow> Inl e
      | Inr fd \<Rightarrow>
          (case summarize fsum df fd of
             Inl e \<Rightarrow> Inl e
           | Inr s \<Rightarrow> search_result re_compile df name_search))"

section \<open>6. Top performers (lines 128-134)\<close>

text \<open>
  What the button shows: \<open>Inr None\<close> is the warning that the Marks column is not
  available.
\<close>

definition top_students :: "dataframe \<Rightarrow> error + dataframe option" where
  "top_students df =
     (if ''Marks'' \<in> set (columns df) then
        (case filter_gt df ''Marks'' 90 of
           Inl e \<Rightarrow> Inl e
         | Inr t \<Rightarrow> Inr (Some t))
      else Inr None)"

section \<open>Example frames\<close>

definition mk_row :: "(string \<times> cell) list \<Rightarrow> row" where
  "mk_row kvs = (\<lambda>c. case map_of kvs c of Some v \<Rightarrow> v | None \<Rightarrow> NaN)"

definition anya :: row where
  "anya = mk_row [(''Name'', Str ''Anya''), (''Course'', Str ''Math''), (''City'', Str ''Pune''),
                  (''Gender'', Str ''Female''), (''Marks'', Num 95), (''Attendance'', Num 92)]"

definition dan :: row where
  "dan = mk_row [(''Name'', Str ''Dan''), (''Course'', Str ''Physics''), (''City'', Str ''Delhi''),
                 (''Gender'', Str ''Male''), (''Marks'', Num 90), (''Attendance'', Num 80)]"

definition bob :: row where
  "bob = mk_row [(''Name'', Str ''Bob''), (''Course'', Str ''Math''), (''City'', Str ''Delhi''),
                 (''Gender'', Str ''Male''), (''Marks'', Num 91), (''Attendance'', Num 70)]"

definition students :: dataframe where
  "students =
     \<lparr>columns = [''Name'', ''Course'', ''City'', ''Gender'', ''Marks'', ''Attendance''],
      rows = [anya, dan, bob]\<rparr>"

definition math_in_pune :: criteria where
  "math_in_pune =
     \<lparr>selected_course = Str ''Math'', selected_cities = [Str ''Pune'', Str ''Delhi''],
      marks_filter = 91, gender_option = ''Male''\<rparr>"

text \<open>Criteria under which the marks stage alone removes a record, Bob with 91.\<close>

definition math_above_91 :: criteria where
  "math_above_91 =
     \<lparr>selected_course = Str ''Math'', selected_cities = [Str ''Pune'', Str ''Delhi''],
      marks_filter = 92, gender_option = ''All''\<rparr>"

text \<open>A frame whose only record has negative marks.\<close>

definition in_debt :: row where
  "in_debt = mk_row [(''Name'', Str ''Eve''), (''Marks'', Num (- 5))]"

definition negative_marks :: dataframe where
  "negative_marks = \<lparr>columns = [''Name'', ''Marks''], rows = [in_debt]\<rparr>"

text \<open>A frame read from a file that has no Marks column.\<close>

definition names_only :: dataframe where
  "names_only = \<lparr>columns = [''Name''], rows = [mk_row [(''Name'', Str ''Bob'')]]\<rparr>"

text \<open>The marks of the specification's example, 90, 80 and 70.\<close>

definition three_marks :: dataframe where
  "three_marks =
     \<lparr>columns = [''Marks''],
      rows = [mk_row [(''Marks'', Num 90)], mk_row [(''Marks'', Num 80)],
              mk_row [(''Marks'', Num 70)]]\<rparr>"

text \<open>
  Marks 85.00000000000001, 84 and 86: the first is the float64 next above 85, which is
  \<open>85 + 1 / 2 ^ 46\<close>.
\<close>

definition near_85 :: dataframe where
  "near_85 =
     \<lparr>columns = [''Marks''],
      rows = [mk_row [(''Marks'', Num (85 + 1 / 2 ^ 46))], mk_row [(''Marks'', Num 84)],
              mk_row [(''Marks'', Num 86)]]\<rparr>"

text \<open>
  A raw frame as \<^verbatim>\<open>read_csv\<close> gives it, with a name missing, marks that are no number
  and an attendance missing; and a reader of unsigned decimal numerals, standing for the
  number syntax of pandas.
\<close>

definition raw_row :: row where
  "raw_row = mk_row [(''Marks'', Str ''abc''), (''City'', Str ''Pune'')]"

definition raw_students :: dataframe where
  "raw_students = \<lparr>columns = [''Name'', ''City'', ''Marks'', ''Attendance''], rows = [raw_row]\<rparr>"

definition digit_of :: "char \<Rightarrow> nat option" where
  "digit_of c = map_of (zip ''0123456789'' [0, 1, 2, 3, 4, 5, 6, 7, 8, 9]) c"

fun read_digits :: "nat \<Rightarrow> string \<Rightarrow> nat option" where
  "read_digits n [] = Some n"
| "read_digits n (c # cs) =
     (case digit_of c of None \<Rightarrow> None | Some k \<Rightarrow> read_digits (10 * n + k) cs)"

definition parse_decimal :: "string \<Rightarrow> rat option" where
  "parse_decimal s = (if s = [] then None else map_option of_nat (read_digits 0 s))"

section \<open>Evaluation and basic facts\<close>

lemma mask_filter: "map fst (filter snd (zip xs (map g xs))) = filter g xs"
  by (induction xs) auto

lemma rows_select_map:
  "rows (select_rows d (map g (map f (rows d)))) = filter (\<lambda>r. g (f r)) (rows d)"
  using mask_filter [of "rows d" "\<lambda>r. g (f r)"] by (simp add: select_rows_def comp_def)

lemma columns_select [simp]: "columns (select_rows d bs) = columns d"
  by (simp add: select_rows_def)

lemma filter_eq_Inr:
  "filter_eq d c v = Inr d' \<longleftrightarrow>
     c \<in> set (columns d) \<and> d' = d\<lparr>rows := filter (\<lambda>r. cell_eq (r c) v) (rows d)\<rparr>"
  using mask_filter [of "rows d" "\<lambda>r. cell_eq (r c) v"]
  by (auto simp: filter_eq_def getcol_def select_rows_def comp_def)

lemma filter_isin_Inr:
  "filter_isin d c vs = Inr d' \<longleftrightarrow>
     c \<in> set (columns d) \<and> d' = d\<lparr>rows := filter (\<lambda>r. r c \<in> set vs) (rows d)\<rparr>"
  using mask_filter [of "rows d" "\<lambda>r. r c \<in> set vs"]
  by (auto simp: filter_isin_def getcol_def select_rows_def comp_def)

lemma filter_ge_Inr:
  "filter_ge d c m = Inr d' \<longleftrightarrow>
     c \<in> set (columns d) \<and> (\<forall>r\<in>set (rows d). \<not> is_Str (r c)) \<and>
     d' = d\<lparr>rows := filter (\<lambda>r. cell_ge m (r c)) (rows d)\<rparr>"
  using mask_filter [of "rows d" "\<lambda>r. cell_ge m (r c)"]
  by (auto simp: filter_ge_def getcol_def series_ge_def select_rows_def comp_def)

lemma filter_gt_Inr:
  "filter_gt d c m = Inr d' \<longleftrightarrow>
     c \<in> set (columns d) \<and> (\<forall>r\<in>set (rows d). \<not> is_Str (r c)) \<and>
     d' = d\<lparr>rows := filter (\<lambda>r. cell_gt m (r c)) (rows d)\<rparr>"
  using mask_filter [of "rows d" "\<lambda>r. cell_gt m (r c)"]
  by (auto simp: filter_gt_def getcol_def series_gt_def select_rows_def comp_def)

lemma filtered_df_rows:
  assumes "filtered_df df C = Inr V"
  shows "columns V = columns df \<and> rows V = filter (passes C) (rows df)"
proof -
  from assms obtain d1 d2 d3 where
    s1: "course_stage C df = Inr d1" and s2: "city_stage C d1 = Inr d2" and
    s3: "marks_stage C d2 = Inr d3" and s4: "gender_stage C d3 = Inr V"
    by (auto simp: filtered_df_def split: sum.splits)
  from s1 have r1: "columns d1 = columns df \<and>
      rows d1 = filter (\<lambda>r. selected_course C = Str ''All'' \<or> cell_eq (r ''Course'') (selected_course C)) (rows df)"
    by (auto simp: course_stage_def filter_eq_Inr split: if_splits)
  from s2 have r2: "columns d2 = columns d1 \<and>
      rows d2 = filter (\<lambda>r. selected_cities C = [] \<or> r ''City'' \<in> set (selected_cities C)) (rows d1)"
    by (auto simp: city_stage_def filter_isin_Inr split: if_splits)
  from s3 have r3: "columns d3 = columns d2 \<and>
      rows d3 = filter (\<lambda>r. cell_ge (marks_filter C) (r ''Marks'')) (rows d2)"
    by (auto simp: marks_stage_def filter_ge_Inr)
  from s4 have r4: "columns V = columns d3 \<and>
      rows V = filter (\<lambda>r. gender_option C = ''All'' \<or> cell_eq (r ''Gender'') (Str (gender_option C))) (rows d3)"
    by (auto simp: gender_stage_def filter_eq_Inr split: if_splits)
  have "rows V = filter (passes C) (rows df)"
    unfolding conjunct2 [OF r4] conjunct2 [OF r3] conjunct2 [OF r2] conjunct2 [OF r1] filter_filter
    by (rule filter_cong) (auto simp: passes_def)
  with r1 r2 r3 r4 show ?thesis by simp
qed

lemmas ex_defs = students_def anya_def dan_def bob_def mk_row_def math_in_pune_def
  negative_marks_def in_debt_def names_only_def three_marks_def raw_students_def raw_row_def identity_criteria_def
  math_above_91_def near_85_def
lemmas run_defs = filtered_df_def course_stage_def city_stage_def marks_stage_def gender_stage_def
  filter_eq_def filter_isin_def filter_ge_def filter_gt_def getcol_def select_rows_def series_ge_def series_gt_def
  cell_eq_def

lemma filter_eq_ok:
  "c \<in> set (columns d) \<Longrightarrow>
   filter_eq d c v = Inr (d\<lparr>rows := filter (\<lambda>r. cell_eq (r c) v) (rows d)\<rparr>)"
  by (simp add: filter_eq_Inr)

lemma filter_isin_ok:
  "c \<in> set (columns d) \<Longrightarrow>
   filter_isin d c vs = Inr (d\<lparr>rows := filter (\<lambda>r. r c \<in> set vs) (rows d)\<rparr>)"
  by (simp add: filter_isin_Inr)

lemma filter_ge_ok:
  "c \<in> set (columns d) \<Longrightarrow> \<forall>r\<in>set (rows d). \<not> is_Str (r c) \<Longrightarrow>
   filter_ge d c m = Inr (d\<lparr>rows := filter (\<lambda>r. cell_ge m (r c)) (rows d)\<rparr>)"
  by (simp add: filter_ge_Inr)

lemma filter_gt_ok:
  "c \<in> set (columns d) \<Longrightarrow> \<forall>r\<in>set (rows d). \<not> is_Str (r c) \<Longrightarrow>
   filter_gt d c m = Inr (d\<lparr>rows := filter (\<lambda>r. cell_gt m (r c)) (rows d)\<rparr>)"
  by (simp add: filter_gt_Inr)

lemma filtered_df_returns:
  assumes "''Marks'' \<in> set (columns df)" and "\<forall>r\<in>set (rows df). \<not> is_Str (r ''Marks'')"
    and "selected_course C \<noteq> Str ''All'' \<longrightarrow> ''Course'' \<in> set (columns df)"
    and "selected_cities C \<noteq> [] \<longrightarrow> ''City'' \<in> set (columns df)"
    and "gender_option C \<noteq> ''All'' \<longrightarrow> ''Gender'' \<in> set (columns df)"
  shows "\<exists>V. filtered_df df C = Inr V"
proof -
  have "\<exists>d1. course_stage C df = Inr d1"
    using assms(3) by (cases "selected_course C = Str ''All''") (simp_all add: course_stage_def filter_eq_ok)
  then obtain d1 where s1: "course_stage C df = Inr d1" ..
  then have c1: "columns d1 = columns df" and m1: "set (rows d1) \<subseteq> set (rows df)"
    by (auto simp: course_stage_def filter_eq_Inr split: if_splits)
  have "\<exists>d2. city_stage C d1 = Inr d2"
    using assms(4) c1 by (cases "selected_cities C = []") (simp_all add: city_stage_def filter_isin_ok)
  then obtain d2 where s2: "city_stage C d1 = Inr d2" ..
  then have c2: "columns d2 = columns df" and m2: "set (rows d2) \<subseteq> set (rows df)"
    using c1 m1 by (auto simp: city_stage_def filter_isin_Inr split: if_splits)
  have "\<forall>r\<in>set (rows d2). \<not> is_Str (r ''Marks'')"
    using assms(2) m2 by blast
  then have "\<exists>d3. marks_stage C d2 = Inr d3"
    using assms(1) c2 by (simp add: marks_stage_def filter_ge_ok)
  then obtain d3 where s3: "marks_stage C d2 = Inr d3" ..
  then have c3: "columns d3 = columns df"
    using c2 by (auto simp: marks_stage_def filter_ge_Inr)
  have "\<exists>V. gender_stage C d3 = Inr V"
    using assms(5) c3 by (cases "gender_option C = ''All''") (simp_all add: gender_stage_def filter_eq_ok)
  then obtain V where s4: "gender_stage C d3 = Inr V" ..
  show ?thesis using s1 s2 s3 s4 by (simp add: filtered_df_def)
qed

lemma filtered_df_needs_marks:
  assumes "filtered_df df C = Inr V"
  shows "''Marks'' \<in> set (columns df)"
proof -
  from assms obtain d1 d2 d3 where
    s1: "course_stage C df = Inr d1" and s2: "city_stage C d1 = Inr d2" and
    s3: "marks_stage C d2 = Inr d3"
    by (auto simp: filtered_df_def split: sum.splits)
  from s1 have "columns d1 = columns df"
    by (auto simp: course_stage_def filter_eq_Inr split: if_splits)
  moreover from s2 have "columns d2 = columns d1"
    by (auto simp: city_stage_def filter_isin_Inr split: if_splits)
  moreover from s3 have "''Marks'' \<in> set (columns d2)"
    by (auto simp: marks_stage_def filter_ge_Inr)
  ultimately show ?thesis by simp
qed

section \<open>The filter pipeline\<close>

text \<open>
  Claim C1. Whenever the filter pipeline returns a view, the view is a subsequence of the
  base table: its records are records of the table, in the table's relative order, and
  every one of them passes all the active filter predicates: its Course is the selected
  course unless that is "All", its City is one of the selected cities unless none is
  selected, its Marks are a number not below the minimum, and its Gender is the selected
  gender unless that is "All".
\<close>

theorem filtered_df_subsequence:
  assumes "filtered_df df C = Inr V"
  shows "subseq (rows V) (rows df) \<and> set (rows V) \<subseteq> set (rows df) \<and>
         (\<forall>r\<in>set (rows V).
            (selected_course C \<noteq> Str ''All'' \<longrightarrow>
               r ''Course'' = selected_course C \<and> r ''Course'' \<noteq> NaN) \<and>
            (selected_cities C \<noteq> [] \<longrightarrow> r ''City'' \<in> set (selected_cities C)) \<and>
            (\<exists>v. r ''Marks'' = Num v \<and> marks_filter C \<le> v) \<and>
            (gender_option C \<noteq> ''All'' \<longrightarrow> r ''Gender'' = Str (gender_option C)))"
proof -
  note V = filtered_df_rows [OF assms]
  have "subseq (rows V) (rows df)" "set (rows V) \<subseteq> set (rows df)"
    using V by auto
  moreover have "(selected_course C \<noteq> Str ''All'' \<longrightarrow>
               r ''Course'' = selected_course C \<and> r ''Course'' \<noteq> NaN) \<and>
            (selected_cities C \<noteq> [] \<longrightarrow> r ''City'' \<in> set (selected_cities C)) \<and>
            (\<exists>v. r ''Marks'' = Num v \<and> marks_filter C \<le> v) \<and>
            (gender_option C \<noteq> ''All'' \<longrightarrow> r ''Gender'' = Str (gender_option C))"
    if "r \<in> set (rows V)" for r
  proof -
    from that V have "passes C r" by simp
    then show ?thesis
      by (cases "r ''Marks''") (auto simp: passes_def cell_eq_def)
  qed
  ultimately show ?thesis by blast
qed

theorem filtered_df_subsequence_witness:
  "filtered_df students math_above_91 = Inr (students\<lparr>rows := [anya]\<rparr>) \<and>
   subseq [anya] [anya, dan, bob] \<and>
   anya ''Course'' = Str ''Math'' \<and> anya ''City'' \<in> set [Str ''Pune'', Str ''Delhi''] \<and>
   (\<exists>v. anya ''Marks'' = Num v \<and> 92 \<le> v) \<and> bob ''Marks'' = Num 91"
proof -
  have run: "filtered_df students math_above_91 = Inr (students\<lparr>rows := [anya]\<rparr>)"
    by (simp add: run_defs ex_defs)
  have bob: "bob ''Marks'' = Num 91"
    by (simp add: bob_def mk_row_def)
  from filtered_df_subsequence [OF run] show ?thesis
    using run bob by (simp add: students_def math_above_91_def)
qed






text \<open>
  Claim C3. On a frame without a Marks column the marks stage is not skipped: line 76 reads
  the column unconditionally and the pipeline ends in a KeyError, although the sidebar
  (lines 54-59) sets the minimum to 0 for exactly this case.
\<close>

theorem missing_marks_raises:
  "filtered_df names_only identity_criteria = Inl (KeyError ''Marks'')"
  by (simp add: run_defs ex_defs)

lemma missing_marks_never_returns:
  "''Marks'' \<notin> set (columns df) \<Longrightarrow> filtered_df df C \<noteq> Inr V"
  using filtered_df_needs_marks by blast

text \<open>
  Claim C9. With no city selected the city stage keeps every record; with a selection, and
  a City column to read, it keeps exactly the records whose City is one of the selected
  values.
\<close>

theorem city_stage_policy:
  "(selected_cities C = [] \<longrightarrow> city_stage C d = Inr d) \<and>
   (selected_cities C \<noteq> [] \<and> ''City'' \<in> set (columns d) \<longrightarrow>
      city_stage C d =
        Inr (d\<lparr>rows := filter (\<lambda>r. r ''City'' \<in> set (selected_cities C)) (rows d)\<rparr>))"
  by (simp add: city_stage_def filter_isin_Inr)

theorem city_stage_policy_witness:
  "city_stage identity_criteria students = Inr students \<and>
   city_stage (identity_criteria\<lparr>selected_cities := [Str ''Delhi'']\<rparr>) students =
     Inr (students\<lparr>rows := [dan, bob]\<rparr>)"
proof -
  have "selected_cities identity_criteria = []" by (simp add: identity_criteria_def)
  with city_stage_policy [of identity_criteria students]
  have a: "city_stage identity_criteria students = Inr students" by blast
  have "selected_cities (identity_criteria\<lparr>selected_cities := [Str ''Delhi'']\<rparr>) \<noteq> [] \<and>
        ''City'' \<in> set (columns students)"
    by (simp add: students_def)
  with city_stage_policy [of "identity_criteria\<lparr>selected_cities := [Str ''Delhi'']\<rparr>" students]
  have "city_stage (identity_criteria\<lparr>selected_cities := [Str ''Delhi'']\<rparr>) students =
     Inr (students\<lparr>rows := filter (\<lambda>r. r ''City'' \<in> set [Str ''Delhi'']) (rows students)\<rparr>)"
    by simp
  then have b: "city_stage (identity_criteria\<lparr>selected_cities := [Str ''Delhi'']\<rparr>) students =
     Inr (students\<lparr>rows := [dan, bob]\<rparr>)"
    by (simp add: ex_defs)
  from a b show ?thesis by simp
qed

section \<open>Top performers\<close>

text \<open>
  Claim C8. On a table with a numeric Marks column, the top performers are exactly the
  records with marks strictly above 90, in the table's order; a record with marks exactly
  90 is not among them.
\<close>

theorem top_students_strict:
  assumes "''Marks'' \<in> set (columns df)" and "\<forall>r\<in>set (rows df). \<not> is_Str (r ''Marks'')"
  shows "top_students df =
           Inr (Some (df\<lparr>rows := filter (\<lambda>r. \<exists>v. r ''Marks'' = Num v \<and> 90 < v) (rows df)\<rparr>)) \<and>
         (\<forall>r\<in>set (rows df). r ''Marks'' = Num 90 \<longrightarrow>
            r \<notin> set (filter (\<lambda>r. \<exists>v. r ''Marks'' = Num v \<and> 90 < v) (rows df)))"
proof -
  have "cell_gt 90 c \<longleftrightarrow> (\<exists>v. c = Num v \<and> 90 < v)" for c
    by (cases c) auto
  then have "filter (\<lambda>r. cell_gt 90 (r ''Marks'')) (rows df) =
      filter (\<lambda>r. \<exists>v. r ''Marks'' = Num v \<and> 90 < v) (rows df)"
    by simp
  moreover have "top_students df =
      Inr (Some (df\<lparr>rows := filter (\<lambda>r. cell_gt 90 (r ''Marks'')) (rows df)\<rparr>))"
    using assms by (simp add: top_students_def filter_gt_ok)
  ultimately show ?thesis by auto
qed

theorem top_students_strict_witness:
  "top_students students = Inr (Some (students\<lparr>rows := [anya, bob]\<rparr>)) \<and> dan ''Marks'' = Num 90"
proof -
  have a: "''Marks'' \<in> set (columns students)" "\<forall>r\<in>set (rows students). \<not> is_Str (r ''Marks'')"
    by (simp_all add: ex_defs)
  from top_students_strict [OF a] show ?thesis
    by (simp add: ex_defs)
qed

section \<open>Float64 rounding\<close>

text \<open>
  With enough steps \<open>expo\<close> finds the binary exponent: 2100 steps are enough for every
  positive number from \<open>2 powi (- 2100)\<close> up to \<open>2 powi 2101\<close>.
\<close>

lemma expo_bounds:
  "0 < x \<Longrightarrow> 2 powi (- int n) \<le> x \<Longrightarrow> x < 2 powi (int n + 1) \<Longrightarrow>
   2 powi (expo n x) \<le> x \<and> x < 2 powi (expo n x + 1)"
proof (induction n arbitrary: x)
  case 0
  then show ?case by simp
next
  case (Suc n)
  have p: "(2::rat) powi (- int n) \<le> 1"
    by (simp add: power_int_minus inverse_le_1_iff)
  consider (big) "2 \<le> x" | (small) "x < 1" | (unit) "1 \<le> x" "x < 2" by linarith
  then show ?case
  proof cases
    case big
    have "2 powi (- int n) \<le> x / 2" using big p by linarith
    moreover have "x / 2 < 2 powi (int n + 1)"
      using Suc.prems(3) by (simp add: power_int_add)
    moreover have "0 < x / 2" using Suc.prems(1) by simp
    ultimately have "2 powi (expo n (x / 2)) \<le> x / 2 \<and> x / 2 < 2 powi (expo n (x / 2) + 1)"
      by (rule Suc.IH [rotated -1, rotated -1])
    with big show ?thesis by (simp add: power_int_add)
  next
    case small
    have "2 powi (- int n) \<le> x * 2"
      using Suc.prems(2) by (simp add: power_int_diff power_int_minus field_simps)
    moreover have "x * 2 < 2 powi (int n + 1)"
    proof -
      have "(2::rat) \<le> 2 powi (int n + 1)"
        by (simp add: power_int_add)
      with small show ?thesis by linarith
    qed
    moreover have "0 < x * 2" using Suc.prems(1) by simp
    ultimately have "2 powi (expo n (x * 2)) \<le> x * 2 \<and> x * 2 < 2 powi (expo n (x * 2) + 1)"
      by (rule Suc.IH [rotated -1, rotated -1])
    with small show ?thesis by (simp add: power_int_diff power_int_add field_simps)
  next
    case unit
    then show ?thesis by simp
  qed
qed

lemma round_half_even_nearest: "\<bar>of_int (round_half_even q) - q\<bar> \<le> 1 / 2"
proof -
  have a: "of_int \<lfloor>q\<rfloor> \<le> q" "q < of_int \<lfloor>q\<rfloor> + 1"
    by linarith+
  consider (low) "q - of_int \<lfloor>q\<rfloor> < 1 / 2" | (high) "1 / 2 < q - of_int \<lfloor>q\<rfloor>"
    | (tie) "q - of_int \<lfloor>q\<rfloor> = 1 / 2" by linarith
  then show ?thesis
  proof cases
    case low
    then have "round_half_even q = \<lfloor>q\<rfloor>"
      by (simp add: round_half_even_def Let_def)
    with low a show ?thesis by simp
  next
    case high
    then have "round_half_even q = \<lfloor>q\<rfloor> + 1"
      by (simp add: round_half_even_def Let_def)
    with high a show ?thesis by simp
  next
    case tie
    then have "round_half_even q = \<lfloor>q\<rfloor> \<or> round_half_even q = \<lfloor>q\<rfloor> + 1"
      by (simp add: round_half_even_def Let_def)
    with tie show ?thesis by auto
  qed
qed

text \<open>The float64 for 0.1, and a tie that goes to the even significand.\<close>

lemma round64_tenth: "round64 (1 / 10) = 3602879701896397 / 2 ^ 55"
  by code_simp

lemma round64_tie: "round64 (169 + 1 / 2 ^ 46) = 169"
  by code_simp

section \<open>Key metrics\<close>

lemma nums_map_Num: "nums (map Num vs) = vs"
  by (induction vs) auto

lemma series_mean_numeric:
  assumes "vs \<noteq> []"
  shows "series_mean fsum (map Num vs) = Inr (Num (round64 (fsum vs / of_nat (length vs))))"
  using assms by (auto simp: series_mean_def nums_map_Num)

lemma series_mean_total:
  "\<forall>c\<in>set cs. \<not> is_Str c \<Longrightarrow> \<exists>a. series_mean fsum cs = Inr a"
  by (simp add: series_mean_def)

lemma performance_Num:
  "performance (Num a) = (if 85 < a then Excellent else if 70 \<le> a then Good else NeedsImprovement)"
  by (simp add: performance_def)

lemma performance_not_NoMatch: "performance a \<noteq> NoMatch"
  by (simp add: performance_def)

lemma tier_boundaries:
  "performance (Num 85) = Good" "performance (Num 86) = Excellent"
  "performance (Num 70) = Good" "performance (Num (139 / 2)) = NeedsImprovement"
  by (simp_all add: performance_def)

lemma summarize_marks_only:
  assumes "vs \<noteq> []" and "''Marks'' \<in> set (columns fd)"
    and "map (\<lambda>r. r ''Marks'') (rows fd) = map Num vs"
    and "''Attendance'' \<notin> set (columns df)"
  shows "summarize fsum df fd =
           Inr \<lparr>shown = Some \<lparr>avg_marks = Num (round64 (fsum vs / of_nat (length vs))),
                              avg_attendance = Num 0, total_students = length vs\<rparr>,
                tier = performance (Num (round64 (fsum vs / of_nat (length vs))))\<rparr>"
proof -
  have len: "length (rows fd) = length vs"
    using arg_cong [OF assms(3), of length] by simp
  with assms(1) have "rows fd \<noteq> []" by auto
  with assms(2) have ne: "\<not> df_empty fd" by (auto simp: df_empty_def)
  have gm: "getcol fd ''Marks'' = Inr (map Num vs)"
    using assms(2,3) by (simp add: getcol_def)
  show ?thesis
    unfolding summarize_def
    using ne gm series_mean_numeric [OF assms(1), of fsum] assms(4) len by simp
qed

lemma summarize_returns:
  assumes "columns fd = columns df" and "''Marks'' \<in> set (columns fd)"
    and "\<forall>r\<in>set (rows fd). \<not> is_Str (r ''Marks'')"
    and "\<forall>r\<in>set (rows fd). \<not> is_Str (r ''Attendance'')"
  shows "\<exists>s. summarize fsum df fd = Inr s"
proof -
  obtain am where am: "series_mean fsum (map (\<lambda>r. r ''Marks'') (rows fd)) = Inr am"
    using series_mean_total [of "map (\<lambda>r. r ''Marks'') (rows fd)" fsum] assms(3) by auto
  obtain aa where aa: "series_mean fsum (map (\<lambda>r. r ''Attendance'') (rows fd)) = Inr aa"
    using series_mean_total [of "map (\<lambda>r. r ''Attendance'') (rows fd)" fsum] assms(4) by auto
  show ?thesis
    using assms(1,2) am aa by (simp add: summarize_def getcol_def)
qed

text \<open>
  The tier does not follow the exact arithmetic mean. The marks of \<open>near_85\<close> have an
  exact mean above 85, which the claim sends to Excellent; their float64 sum is 255 in
  either order of addition, the average the script computes is 85.0, and the tier is Good.
\<close>

theorem tier_by_exact_mean_counterexample:
  "85 < arith_mean [85 + 1 / 2 ^ 46, 84, 86] \<and>
   summarize sum_in_order near_85 near_85 =
     Inr \<lparr>shown = Some \<lparr>avg_marks = Num 85, avg_attendance = Num 0, total_students = 3\<rparr>,
          tier = Good\<rparr> \<and>
   summarize sum_first_rest near_85 near_85 =
     Inr \<lparr>shown = Some \<lparr>avg_marks = Num 85, avg_attendance = Num 0, total_students = 3\<rparr>,
          tier = Good\<rparr>"
proof -
  let ?vs = "[85 + 1 / 2 ^ 46, 84, 86 :: rat]"
  have exact: "85 < arith_mean ?vs"
    by code_simp
  have a1: "round64 (sum_in_order ?vs / of_nat (length ?vs)) = 85"
    by code_simp
  have a2: "round64 (sum_first_rest ?vs / of_nat (length ?vs)) = 85"
    by code_simp
  have h: "?vs \<noteq> []" "''Marks'' \<in> set (columns near_85)"
    "map (\<lambda>r. r ''Marks'') (rows near_85) = map Num ?vs"
    "''Attendance'' \<notin> set (columns near_85)"
    by (simp_all add: near_85_def mk_row_def)
  have l: "length ?vs = 3" by simp
  have g: "performance (Num 85) = Good" by (simp add: performance_def)
  have s1: "summarize sum_in_order near_85 near_85 =
     Inr \<lparr>shown = Some \<lparr>avg_marks = Num 85, avg_attendance = Num 0, total_students = 3\<rparr>,
          tier = Good\<rparr>"
    apply (simp only: summarize_marks_only [OF h, of sum_in_order])
    apply (simp only: a1 g)
    apply (simp only: l)
    done
  have s2: "summarize sum_first_rest near_85 near_85 =
     Inr \<lparr>shown = Some \<lparr>avg_marks = Num 85, avg_attendance = Num 0, total_students = 3\<rparr>,
          tier = Good\<rparr>"
    apply (simp only: summarize_marks_only [OF h, of sum_first_rest])
    apply (simp only: a2 g)
    apply (simp only: l)
    done
  from exact s1 s2 show ?thesis by (intro conjI)
qed

text \<open>
  Claim C4, amended. For a non-empty view with a numeric Marks column the metrics block
  returns, and the tier is determined by the average it computes, which is the float64 mean
  of the marks (their float64 sum divided by their count, rounded): Excellent exactly when
  that average is above 85, Good exactly when it is at least 70 and at most 85, and
  NeedsImprovement exactly when it is below 70. The average is the exact arithmetic mean
  whenever the sum and the quotient are computed without rounding.
\<close>

theorem tier_by_float_mean:
  assumes "vs \<noteq> []" and "columns fd = columns df" and "''Marks'' \<in> set (columns fd)"
    and "map (\<lambda>r. r ''Marks'') (rows fd) = map Num vs"
    and "\<forall>r\<in>set (rows fd). \<not> is_Str (r ''Attendance'')"
  shows "\<exists>s a. summarize fsum df fd = Inr s \<and>
           a = round64 (fsum vs / of_nat (length vs)) \<and>
           map_option avg_marks (shown s) = Some (Num a) \<and>
           (tier s = Excellent \<longleftrightarrow> 85 < a) \<and>
           (tier s = Good \<longleftrightarrow> 70 \<le> a \<and> a \<le> 85) \<and>
           (tier s = NeedsImprovement \<longleftrightarrow> a < 70) \<and>
           (fsum vs = sum_list vs \<and> round64 (arith_mean vs) = arith_mean vs \<longrightarrow>
              a = arith_mean vs)"
proof -
  let ?a = "round64 (fsum vs / of_nat (length vs))"
  have len: "length (rows fd) = length vs"
    using arg_cong [OF assms(4), of length] by simp
  with assms(1) have "rows fd \<noteq> []" by auto
  with assms(3) have ne: "\<not> df_empty fd" by (auto simp: df_empty_def)
  have gm: "getcol fd ''Marks'' = Inr (map Num vs)"
    using assms(3,4) by (simp add: getcol_def)
  have mm: "series_mean fsum (map Num vs) = Inr (Num ?a)"
    by (rule series_mean_numeric [OF assms(1)])
  have "\<exists>aa. (if ''Attendance'' \<in> set (columns df)
                then (case getcol fd ''Attendance'' of
                        Inl e \<Rightarrow> Inl e | Inr acol \<Rightarrow> series_mean fsum acol)
                else Inr (Num 0)) = Inr aa"
  proof (cases "''Attendance'' \<in> set (columns df)")
    case True
    have "\<exists>a. series_mean fsum (map (\<lambda>r. r ''Attendance'') (rows fd)) = Inr a"
      using assms(5) by (intro series_mean_total) auto
    with True assms(2) show ?thesis by (simp add: getcol_def)
  next
    case False
    then show ?thesis by simp
  qed
  then obtain aa where at: "(if ''Attendance'' \<in> set (columns df)
                then (case getcol fd ''Attendance'' of
                        Inl e \<Rightarrow> Inl e | Inr acol \<Rightarrow> series_mean fsum acol)
                else Inr (Num 0)) = Inr aa" ..
  have run: "summarize fsum df fd =
      Inr \<lparr>shown = Some \<lparr>avg_marks = Num ?a, avg_attendance = aa,
                         total_students = length (rows fd)\<rparr>,
           tier = performance (Num ?a)\<rparr>"
    unfolding summarize_def using ne gm mm at by simp
  have exact: "fsum vs = sum_list vs \<and> round64 (arith_mean vs) = arith_mean vs \<longrightarrow>
      ?a = arith_mean vs"
    by (simp add: arith_mean_def)
  from run exact show ?thesis
    by (auto simp: performance_Num)
qed

theorem tier_by_float_mean_witness:
  "(\<exists>s. summarize sum_in_order three_marks three_marks = Inr s \<and>
        map_option avg_marks (shown s) = Some (Num 80) \<and> tier s = Good) \<and>
   (\<exists>s. summarize sum_in_order near_85 near_85 = Inr s \<and>
        map_option avg_marks (shown s) = Some (Num 85) \<and> tier s = Good)"
proof -
  let ?vs = "[90, 80, 70 :: rat]"
  let ?ws = "[85 + 1 / 2 ^ 46, 84, 86 :: rat]"
  have h: "?vs \<noteq> []" "columns three_marks = columns three_marks"
    "''Marks'' \<in> set (columns three_marks)"
    "map (\<lambda>r. r ''Marks'') (rows three_marks) = map Num ?vs"
    "\<forall>r\<in>set (rows three_marks). \<not> is_Str (r ''Attendance'')"
    by (simp_all add: three_marks_def mk_row_def)
  have k: "?ws \<noteq> []" "columns near_85 = columns near_85"
    "''Marks'' \<in> set (columns near_85)"
    "map (\<lambda>r. r ''Marks'') (rows near_85) = map Num ?ws"
    "\<forall>r\<in>set (rows near_85). \<not> is_Str (r ''Attendance'')"
    by (simp_all add: near_85_def mk_row_def)
  have a: "round64 (sum_in_order ?vs / of_nat (length ?vs)) = 80"
    by code_simp
  have b: "round64 (sum_in_order ?ws / of_nat (length ?ws)) = 85"
    by code_simp
  have first: "\<exists>s. summarize sum_in_order three_marks three_marks = Inr s \<and>
        map_option avg_marks (shown s) = Some (Num 80) \<and> tier s = Good"
    using tier_by_float_mean [OF h, of sum_in_order] unfolding a by auto
  have second: "\<exists>s. summarize sum_in_order near_85 near_85 = Inr s \<and>
        map_option avg_marks (shown s) = Some (Num 85) \<and> tier s = Good"
    using tier_by_float_mean [OF k, of sum_in_order] unfolding b by auto
  from first second show ?thesis by (rule conjI)
qed

text \<open>
  On an empty view the metrics block computes nothing: no average and no count is assigned
  or shown, so the summary is not the record of three zeros.
\<close>

theorem empty_view_zero_metrics_counterexample:
  "summarize sum_in_order students (students\<lparr>rows := []\<rparr>) \<noteq>
     Inr \<lparr>shown = Some \<lparr>avg_marks = Num 0, avg_attendance = Num 0, total_students = 0\<rparr>,
          tier = NoMatch\<rparr>"
  by (simp add: summarize_def df_empty_def)

text \<open>
  Claim C5, amended. On an empty filtered view the metrics block returns the no-match
  state with no metrics at all, and never an error; and for every filtered view the tier is
  NoMatch exactly when the view has no records, which is also exactly when no metrics are
  shown.
\<close>

theorem no_match_iff_empty:
  assumes "filtered_df df C = Inr V"
  shows "(rows V = [] \<longrightarrow> summarize fsum df V = Inr \<lparr>shown = None, tier = NoMatch\<rparr>) \<and>
         (\<forall>s. summarize fsum df V = Inr s \<longrightarrow>
            (tier s = NoMatch \<longleftrightarrow> rows V = []) \<and> (shown s = None \<longleftrightarrow> rows V = []))"
proof -
  have "''Marks'' \<in> set (columns V)"
    using filtered_df_needs_marks [OF assms] filtered_df_rows [OF assms] by simp
  then have e: "df_empty V \<longleftrightarrow> rows V = []"
    by (auto simp: df_empty_def)
  show ?thesis
    using e by (auto simp: summarize_def performance_not_NoMatch split: sum.splits if_splits)
qed

theorem no_match_iff_empty_witness:
  "filtered_df students (identity_criteria\<lparr>marks_filter := 96\<rparr>) = Inr (students\<lparr>rows := []\<rparr>) \<and>
   summarize sum_in_order students (students\<lparr>rows := []\<rparr>) = Inr \<lparr>shown = None, tier = NoMatch\<rparr>"
proof -
  have run: "filtered_df students (identity_criteria\<lparr>marks_filter := 96\<rparr>) = Inr (students\<lparr>rows := []\<rparr>)"
    by (simp add: run_defs ex_defs)
  from no_match_iff_empty [OF run, of sum_in_order] show ?thesis
    using run by simp
qed

section \<open>Search by name\<close>

lemma search_empty_query: "search_result re_compile df [] = Inr None"
  by (simp add: search_result_def)

lemma search_literal_engine:
  assumes "name_search \<noteq> []" and "''Name'' \<in> set (columns df)"
    and "rows df = [] \<or> (\<exists>r\<in>set (rows df). is_Str (r ''Name''))"
    and "re_compile name_search = Some (contains_ci name_search)"
  shows "search_result re_compile df name_search =
           Inr (Some (df\<lparr>rows := filter (\<lambda>r. \<exists>s. r ''Name'' = Str s \<and> contains_ci name_search s)
                                       (rows df)\<rparr>))"
proof -
  let ?g = "\<lambda>r. case r ''Name'' of Str s \<Rightarrow> contains_ci name_search s | _ \<Rightarrow> False"
  have g: "?g r \<longleftrightarrow> (\<exists>s. r ''Name'' = Str s \<and> contains_ci name_search s)" for r
    by (cases "r ''Name''") auto
  have ok: "\<not> (map (\<lambda>r. r ''Name'') (rows df) \<noteq> [] \<and>
               (\<forall>c\<in>set (map (\<lambda>r. r ''Name'') (rows df)). \<not> is_Str c))"
    using assms(3) by auto
  have "str_contains re_compile (map (\<lambda>r. r ''Name'') (rows df)) name_search =
      Inr (map ?g (rows df))"
    unfolding str_contains_def using ok assms(4) by (simp add: comp_def)
  then have "search_result re_compile df name_search =
      Inr (Some (select_rows df (map ?g (rows df))))"
    using assms(1,2) by (simp add: search_result_def getcol_def)
  moreover have "select_rows df (map ?g (rows df)) = df\<lparr>rows := filter ?g (rows df)\<rparr>"
    using mask_filter [of "rows df" ?g] by (simp add: select_rows_def)
  ultimately show ?thesis by (simp add: g)
qed

text \<open>
  Claim C6. The query is not matched as a substring: \<^verbatim>\<open>str.contains\<close> is called with its
  default \<^verbatim>\<open>regex=True\<close>. On the frame \<open>students\<close>, which passes the filter and the
  metrics, and with any compiler that treats the patterns \<^verbatim>\<open>.\<close> and \<^verbatim>\<open>(\<close> as Python's
  does, the query \<^verbatim>\<open>.\<close> finds all three records, none of whose names has a dot, and the
  query \<^verbatim>\<open>(\<close> ends in the error of the compiler. With a compiler that reads the query
  literally, \<open>search_literal_engine\<close> gives what the claim says.
\<close>

theorem search_treats_query_as_regex:
  assumes "re_compile ''.'' = Some m" and "\<forall>s. m s \<longleftrightarrow> (\<exists>c\<in>set s. c \<noteq> CHR 0x0A)"
    and "re_compile ''('' = None"
  shows "search_after_filters fsum re_compile students identity_criteria ''.'' =
           Inr (Some students) \<and>
         \<not> contains_ci ''.'' ''Anya'' \<and> \<not> contains_ci ''.'' ''Dan'' \<and>
         \<not> contains_ci ''.'' ''Bob'' \<and>
         search_after_filters fsum re_compile students identity_criteria ''('' =
           Inl RegexError"
proof -
  have f: "filtered_df students identity_criteria = Inr students"
    by (simp add: run_defs ex_defs)
  have "\<exists>s. summarize fsum students students = Inr s"
    by (rule summarize_returns) (simp_all add: ex_defs)
  then obtain s where m: "summarize fsum students students = Inr s" ..
  have names: "map (\<lambda>r. r ''Name'') (rows students) = [Str ''Anya'', Str ''Dan'', Str ''Bob'']"
    by (simp add: ex_defs)
  have hit: "m ''Anya''" "m ''Dan''" "m ''Bob''"
    using assms(2) by simp_all
  have col: "''Name'' \<in> set (columns students)"
    by (simp add: students_def)
  have dot: "search_result re_compile students ''.'' = Inr (Some students)"
    using assms(1) hit col names
    by (simp add: search_result_def str_contains_def getcol_def select_rows_def students_def)
  have paren: "search_result re_compile students ''('' = Inl RegexError"
    using assms(3) col names
    by (simp add: search_result_def str_contains_def getcol_def)
  have lit: "\<not> contains_ci ''.'' ''Anya''" "\<not> contains_ci ''.'' ''Dan''"
    "\<not> contains_ci ''.'' ''Bob''"
    by (simp_all add: contains_ci_def lower_def sublist_Cons_right)
  show ?thesis
    using f m dot paren lit by (simp add: search_after_filters_def)
qed

theorem search_treats_query_as_regex_witness:
  "search_after_filters sum_in_order py_re students identity_criteria ''.'' =
     Inr (Some students) \<and>
   search_after_filters sum_in_order py_re students identity_criteria ''('' = Inl RegexError"
proof -
  have a: "py_re ''.'' = Some any_char" "py_re ''('' = None"
    by (simp_all add: py_re_def)
  have b: "\<forall>s. any_char s \<longleftrightarrow> (\<exists>c\<in>set s. c \<noteq> CHR 0x0A)"
    by (simp add: any_char_def)
  from search_treats_query_as_regex [OF a(1) b a(2), of sum_in_order] show ?thesis
    by simp
qed

section \<open>Loading\<close>

lemma fillna_cell:
  "i < length (rows d) \<Longrightarrow>
   (rows (fillna value d) ! i) c =
     (if c \<in> set (columns d) \<and> (rows d ! i) c = NaN
      then (case value c of Some v \<Rightarrow> v | None \<Rightarrow> NaN) else (rows d ! i) c)"
  by (simp add: fillna_def)

lemma fillna_shape [simp]:
  "columns (fillna value d) = columns d" "length (rows (fillna value d)) = length (rows d)"
  by (simp_all add: fillna_def)

lemma coerce_cell:
  "i < length (rows d) \<Longrightarrow>
   (rows (coerce_column parse k d) ! i) c =
     (if c = k \<and> k \<in> set (columns d) then fillna0 (to_numeric parse ((rows d ! i) c))
      else (rows d ! i) c)"
  by (simp add: coerce_column_def)

lemma coerce_shape [simp]:
  "columns (coerce_column parse k d) = columns d"
  "length (rows (coerce_column parse k d)) = length (rows d)"
  by (simp_all add: coerce_column_def)

lemma load_cell:
  assumes "load_df parse (Some raw) = Inr L" and "i < length (rows raw)" and "c \<in> set (columns raw)"
  shows "(rows L ! i) c =
     (if c = ''Marks'' \<or> c = ''Attendance''
      then fillna0 (to_numeric parse (if (rows raw ! i) c = NaN then Num 0 else (rows raw ! i) c))
      else if (rows raw ! i) c = NaN \<and> (c = ''Name'' \<or> c = ''Course'' \<or> c = ''City'' \<or> c = ''Gender'')
      then Str ''Unknown'' else (rows raw ! i) c)"
proof -
  from assms(1) have L: "L = coerce_column parse ''Attendance''
                (coerce_column parse ''Marks'' (fillna defaults raw))"
    by (simp add: load_df_def)
  consider (marks) "c = ''Marks''" | (att) "c = ''Attendance''"
    | (other) "c \<noteq> ''Marks''" "c \<noteq> ''Attendance''" by blast
  then show ?thesis
  proof cases
    case marks
    with assms(2,3) show ?thesis
      unfolding L by (simp add: coerce_cell fillna_cell defaults_def)
  next
    case att
    with assms(2,3) show ?thesis
      unfolding L by (simp add: coerce_cell fillna_cell defaults_def)
  next
    case other
    with assms(2,3) show ?thesis
      unfolding L by (simp add: coerce_cell fillna_cell defaults_def)
  qed
qed

lemma load_numeric_cell:
  assumes "load_df parse (Some raw) = Inr L" and "i < length (rows raw)" and "c \<in> set (columns raw)"
    and "c = ''Marks'' \<or> c = ''Attendance''"
  shows "(rows L ! i) c =
     fillna0 (to_numeric parse (if (rows raw ! i) c = NaN then Num 0 else (rows raw ! i) c))"
  using load_cell [OF assms(1-3)] assms(4) by presburger

lemma load_text_cell:
  assumes "load_df parse (Some raw) = Inr L" and "i < length (rows raw)" and "c \<in> set (columns raw)"
    and "c = ''Name'' \<or> c = ''Course'' \<or> c = ''City'' \<or> c = ''Gender''"
  shows "(rows L ! i) c = (if (rows raw ! i) c = NaN then Str ''Unknown'' else (rows raw ! i) c)"
proof -
  from assms(4) have "\<not> (c = ''Marks'' \<or> c = ''Attendance'')" by auto
  with load_cell [OF assms(1-3)] assms(4) show ?thesis by presburger
qed

lemma coerced_cell_facts:
  assumes "x = fillna0 (to_numeric parse (if y = NaN then Num 0 else y))"
  shows "is_Num x"
    and "y = NaN \<or> (\<exists>s. y = Str s \<and> parse s = None) \<longrightarrow> x = Num 0"
    and "\<forall>v. y = Num v \<or> (\<exists>s. y = Str s \<and> parse s = Some v) \<longrightarrow> x = Num v"
proof -
  show "is_Num x" unfolding assms
    by (cases y) (auto split: option.splits)
  show "y = NaN \<or> (\<exists>s. y = Str s \<and> parse s = None) \<longrightarrow> x = Num 0" unfolding assms
    by (cases y) (auto split: option.splits)
  show "\<forall>v. y = Num v \<or> (\<exists>s. y = Str s \<and> parse s = Some v) \<longrightarrow> x = Num v" unfolding assms
    by (cases y) (auto split: option.splits)
qed

text \<open>
  Claim C7. A load from an existing source always succeeds and keeps the columns and the
  rows in their order. In a Marks or Attendance column every loaded cell is a number: 0
  where the source cell was missing or a string that does not parse, the number itself
  otherwise. In a Name, Course, City or Gender column a missing cell becomes "Unknown" and
  every other cell is kept.
\<close>

theorem load_df_defaults:
  "\<exists>L. load_df parse (Some raw) = Inr L \<and> columns L = columns raw \<and>
       length (rows L) = length (rows raw) \<and>
       (\<forall>i<length (rows raw). \<forall>c\<in>set (columns raw).
          (c = ''Marks'' \<or> c = ''Attendance'' \<longrightarrow>
             is_Num ((rows L ! i) c) \<and>
             ((rows raw ! i) c = NaN \<or> (\<exists>s. (rows raw ! i) c = Str s \<and> parse s = None) \<longrightarrow>
                (rows L ! i) c = Num 0) \<and>
             (\<forall>v. (rows raw ! i) c = Num v \<or> (\<exists>s. (rows raw ! i) c = Str s \<and> parse s = Some v) \<longrightarrow>
                (rows L ! i) c = Num v)) \<and>
          (c = ''Name'' \<or> c = ''Course'' \<or> c = ''City'' \<or> c = ''Gender'' \<longrightarrow>
             ((rows raw ! i) c = NaN \<longrightarrow> (rows L ! i) c = Str ''Unknown'') \<and>
             ((rows raw ! i) c \<noteq> NaN \<longrightarrow> (rows L ! i) c = (rows raw ! i) c)))"
  (is "\<exists>L. ?run L \<and> ?cols L \<and> ?len L \<and> ?cells L")
proof -
  obtain L where L: "?run L"
    by (simp add: load_df_def)
  have cols: "?cols L" and len: "?len L"
    using L by (auto simp: load_df_def)
  have cells: "?cells L"
  proof (rule allI, rule impI, rule ballI, rule conjI)
    fix i c
    assume i: "i < length (rows raw)" and c: "c \<in> set (columns raw)"
    show "c = ''Marks'' \<or> c = ''Attendance'' \<longrightarrow>
             is_Num ((rows L ! i) c) \<and>
             ((rows raw ! i) c = NaN \<or> (\<exists>s. (rows raw ! i) c = Str s \<and> parse s = None) \<longrightarrow>
                (rows L ! i) c = Num 0) \<and>
             (\<forall>v. (rows raw ! i) c = Num v \<or> (\<exists>s. (rows raw ! i) c = Str s \<and> parse s = Some v) \<longrightarrow>
                (rows L ! i) c = Num v)"
    proof (rule impI)
      assume k: "c = ''Marks'' \<or> c = ''Attendance''"
      note f = coerced_cell_facts [OF load_numeric_cell [OF L i c k]]
      show "is_Num ((rows L ! i) c) \<and>
             ((rows raw ! i) c = NaN \<or> (\<exists>s. (rows raw ! i) c = Str s \<and> parse s = None) \<longrightarrow>
                (rows L ! i) c = Num 0) \<and>
             (\<forall>v. (rows raw ! i) c = Num v \<or> (\<exists>s. (rows raw ! i) c = Str s \<and> parse s = Some v) \<longrightarrow>
                (rows L ! i) c = Num v)"
        by (rule conjI [OF f(1) conjI [OF f(2) f(3)]])
    qed
    show "c = ''Name'' \<or> c = ''Course'' \<or> c = ''City'' \<or> c = ''Gender'' \<longrightarrow>
             ((rows raw ! i) c = NaN \<longrightarrow> (rows L ! i) c = Str ''Unknown'') \<and>
             ((rows raw ! i) c \<noteq> NaN \<longrightarrow> (rows L ! i) c = (rows raw ! i) c)"
    proof (rule impI)
      assume k: "c = ''Name'' \<or> c = ''Course'' \<or> c = ''City'' \<or> c = ''Gender''"
      have e: "(rows L ! i) c = (if (rows raw ! i) c = NaN then Str ''Unknown'' else (rows raw ! i) c)"
        by (rule load_text_cell [OF L i c k])
      show "((rows raw ! i) c = NaN \<longrightarrow> (rows L ! i) c = Str ''Unknown'') \<and>
             ((rows raw ! i) c \<noteq> NaN \<longrightarrow> (rows L ! i) c = (rows raw ! i) c)"
        unfolding e by simp
    qed
  qed
  show ?thesis
    by (rule exI [of _ L], rule conjI [OF L conjI [OF cols conjI [OF len cells]]])
qed

theorem load_df_defaults_witness:
  "\<exists>L. load_df parse_decimal (Some raw_students) = Inr L \<and>
       (rows L ! 0) ''Marks'' = Num 0 \<and> (rows L ! 0) ''Attendance'' = Num 0 \<and>
       (rows L ! 0) ''Name'' = Str ''Unknown'' \<and> (rows L ! 0) ''City'' = Str ''Pune''"
proof -
  have p: "parse_decimal ''abc'' = None"
    by (simp add: parse_decimal_def digit_of_def)
  have r: "rows raw_students ! 0 = raw_row"
    by (simp add: raw_students_def)
  have i: "(0::nat) < length (rows raw_students)"
    by (simp add: raw_students_def)
  have k: "''Marks'' \<in> set (columns raw_students)" "''Attendance'' \<in> set (columns raw_students)"
    "''Name'' \<in> set (columns raw_students)" "''City'' \<in> set (columns raw_students)"
    by (simp_all add: raw_students_def)
  have c: "raw_row ''Marks'' = Str ''abc''" "raw_row ''Attendance'' = NaN"
    "raw_row ''Name'' = NaN" "raw_row ''City'' = Str ''Pune''"
    by (simp_all add: raw_row_def mk_row_def)
  from load_df_defaults [of parse_decimal raw_students]
  obtain L where L: "load_df parse_decimal (Some raw_students) = Inr L"
    and cells: "\<forall>i<length (rows raw_students). \<forall>c\<in>set (columns raw_students).
          (c = ''Marks'' \<or> c = ''Attendance'' \<longrightarrow>
             is_Num ((rows L ! i) c) \<and>
             ((rows raw_students ! i) c = NaN \<or>
              (\<exists>s. (rows raw_students ! i) c = Str s \<and> parse_decimal s = None) \<longrightarrow>
                (rows L ! i) c = Num 0) \<and>
             (\<forall>v. (rows raw_students ! i) c = Num v \<or>
                  (\<exists>s. (rows raw_students ! i) c = Str s \<and> parse_decimal s = Some v) \<longrightarrow>
                (rows L ! i) c = Num v)) \<and>
          (c = ''Name'' \<or> c = ''Course'' \<or> c = ''City'' \<or> c = ''Gender'' \<longrightarrow>
             ((rows raw_students ! i) c = NaN \<longrightarrow> (rows L ! i) c = Str ''Unknown'') \<and>
             ((rows raw_students ! i) c \<noteq> NaN \<longrightarrow> (rows L ! i) c = (rows raw_students ! i) c))"
    by (elim exE conjE)
  note at0 = cells [THEN spec, of 0, THEN mp, OF i, unfolded r]
  have m: "(rows L ! 0) ''Marks'' = Num 0"
    using at0 [THEN bspec, OF k(1)] by (simp add: c p)
  have a: "(rows L ! 0) ''Attendance'' = Num 0"
    using at0 [THEN bspec, OF k(2)] by (simp add: c)
  have n: "(rows L ! 0) ''Name'' = Str ''Unknown''"
    using at0 [THEN bspec, OF k(3)] by (simp add: c)
  have t: "(rows L ! 0) ''City'' = Str ''Pune''"
    using at0 [THEN bspec, OF k(4)] by (simp add: c)
  show ?thesis
    by (rule exI [of _ L], rule conjI [OF L conjI [OF m conjI [OF a conjI [OF n t]]]])
qed

section \<open>From loading to filtering\<close>

text \<open>
  The hypotheses of the filter and metrics theorems hold for every loaded frame: its Marks
  and Attendance columns hold numbers only, so the pipeline returns a view whenever the
  columns it reads are in the file.
\<close>

lemma load_df_numeric:
  assumes "load_df parse (Some raw) = Inr L" and "c = ''Marks'' \<or> c = ''Attendance''"
    and "c \<in> set (columns raw)"
  shows "\<forall>r\<in>set (rows L). is_Num (r c)"
proof
  fix r
  assume "r \<in> set (rows L)"
  then obtain i where i: "i < length (rows L)" and r: "rows L ! i = r"
    by (auto simp: in_set_conv_nth)
  have "length (rows L) = length (rows raw)"
    using assms(1) by (auto simp: load_df_def)
  with i have "i < length (rows raw)" by simp
  from coerced_cell_facts(1) [OF load_numeric_cell [OF assms(1) this assms(3) assms(2)]]
  show "is_Num (r c)" by (simp add: r)
qed

lemma is_Num_not_Str: "is_Num c \<Longrightarrow> \<not> is_Str c"
  by (cases c) auto

lemma loaded_frame_filters:
  assumes "load_df parse (Some raw) = Inr L" and "''Marks'' \<in> set (columns raw)"
    and "selected_course C \<noteq> Str ''All'' \<longrightarrow> ''Course'' \<in> set (columns raw)"
    and "selected_cities C \<noteq> [] \<longrightarrow> ''City'' \<in> set (columns raw)"
    and "gender_option C \<noteq> ''All'' \<longrightarrow> ''Gender'' \<in> set (columns raw)"
  shows "\<exists>V. filtered_df L C = Inr V \<and> rows V = filter (passes C) (rows L)"
proof -
  have cols: "columns L = columns raw"
    using assms(1) by (auto simp: load_df_def)
  have "\<forall>r\<in>set (rows L). \<not> is_Str (r ''Marks'')"
    using load_df_numeric [OF assms(1) _ assms(2)] is_Num_not_Str by blast
  with assms(2-5) cols obtain V where V: "filtered_df L C = Inr V"
    using filtered_df_returns [of L C] by auto
  with filtered_df_rows [OF V] show ?thesis by simp
qed

end
